theory Spec2Isabelle
  imports Main "HOL-Library.Word"
begin

unbundle bit_operations_syntax

section \<open>Machine types and undefined behaviour\<close>

text \<open>
  The sources are C for a 64-bit ARM target: \<open>unsigned int\<close> and \<open>uint32_t\<close> are
  32-bit words, \<open>unsigned long\<close>, \<open>uint64_t\<close> and \<open>paddr_t\<close> are 64-bit words.
  Where the C text has undefined behaviour (a null pointer dereferenced, an array indexed
  out of range, a shift by the width of the type or more) or panics, the model returns a
  \<open>fault\<close> on the left of a sum instead of a value.
\<close>

type_synonym u32 = "32 word"
type_synonym u64 = "64 word"

datatype fault = Null_pointer | Out_of_bounds | Undefined_shift | Panic

definition ENOMEM :: int where
  "ENOMEM = 12"

definition EINVAL :: int where
  "EINVAL = 22"

section \<open>Bitmaps of \<open>unsigned long\<close>\<close>

text \<open>
  Modelled from the spec: \<open>BITS_TO_LONGS\<close>, \<open>set_bit\<close>, \<open>clear_bit\<close> and
  \<open>test_bit\<close> come from the hypervisor's headers, not from the files of this
  repository. The spec (section 9) describes the pending and active sets as fixed-capacity
  bit-sets with test, set and clear operations indexed directly by the interrupt number.
  A bitmap is the array of \<open>unsigned long\<close> the struct declares; bit \<open>nr\<close> is bit
  \<open>nr mod 64\<close> of element \<open>nr div 64\<close>. An access to an element the array does not
  have is the fault \<open>Out_of_bounds\<close>.
\<close>

definition BITS_PER_LONG :: nat where
  "BITS_PER_LONG = 64"

definition BITS_TO_LONGS :: "nat \<Rightarrow> nat" where
  "BITS_TO_LONGS bits = (bits + BITS_PER_LONG - 1) div BITS_PER_LONG"

definition set_bit_bm :: "nat \<Rightarrow> u64 list \<Rightarrow> fault + u64 list" where
  "set_bit_bm nr addr =
     (if nr div BITS_PER_LONG < length addr
      then Inr (addr[nr div BITS_PER_LONG :=
                  (addr ! (nr div BITS_PER_LONG)) OR push_bit (nr mod BITS_PER_LONG) 1])
      else Inl Out_of_bounds)"

definition clear_bit_bm :: "nat \<Rightarrow> u64 list \<Rightarrow> fault + u64 list" where
  "clear_bit_bm nr addr =
     (if nr div BITS_PER_LONG < length addr
      then Inr (addr[nr div BITS_PER_LONG :=
                  (addr ! (nr div BITS_PER_LONG)) AND NOT (push_bit (nr mod BITS_PER_LONG) 1)])
      else Inl Out_of_bounds)"

definition test_bit_bm :: "nat \<Rightarrow> u64 list \<Rightarrow> fault + bool" where
  "test_bit_bm nr addr =
     (if nr div BITS_PER_LONG < length addr
      then Inr (bit (addr ! (nr div BITS_PER_LONG)) (nr mod BITS_PER_LONG))
      else Inl Out_of_bounds)"

section \<open>The virtual interrupt controller (\<open>arm-vgic.c\<close>)\<close>

subsection \<open>Data\<close>

text \<open>\<open>struct vgic_v3\<close>, field by field; the arrays are lists of the declared length.\<close>

record vgic_v3 =
  gicd_ctlr :: u32
  gicd_typer :: u32
  gicd_isenabler :: "u32 list"
  gicd_icenabler :: "u32 list"
  gicd_ipriorityr :: "u32 list"
  gicr_ctlr :: u32
  gicr_waker :: u32
  pending_irqs :: "u64 list"
  active_irqs :: "u64 list"

text \<open>
  \<open>struct vcpu\<close> and \<open>struct domain\<close> are declared in the hypervisor's headers. The
  model keeps the fields the two source files read or write: \<open>v->processor\<close>,
  \<open>d->domain_id\<close>, the array \<open>d->vcpu\<close> and the pointer \<open>d->arch.vgic\<close>
  (\<open>None\<close> is the null pointer). The back pointer \<open>v->domain\<close> is not a field: a
  function that takes a \<open>struct vcpu *v\<close> and follows \<open>v->domain\<close> takes that domain
  as an argument beside \<open>v\<close>.
\<close>

record vcpu =
  vcpu_id :: nat
  processor :: u32

text \<open>
  Modelled from the spec: the delivery step \<open>vgic_vcpu_inject_irq\<close> is declared in
  \<open>asm/vgic.h\<close> and its body is not in this repository. The spec calls it the delivery
  step that makes the interrupt observed on the next guest entry and wakes the vCPU. The
  model records every call, in order, in the field \<open>delivered\<close> of the domain, with the
  vCPU and the interrupt number passed; the call touches nothing else.
\<close>

record domain =
  domain_id :: nat
  vcpu :: "vcpu list"
  arch_vgic :: "vgic_v3 option"
  delivered :: "(vcpu \<times> u32) list"

definition vgic_vcpu_inject_irq :: "vcpu \<Rightarrow> u32 \<Rightarrow> domain \<Rightarrow> domain" where
  "vgic_vcpu_inject_irq v virq d = d\<lparr>delivered := delivered d @ [(v, virq)]\<rparr>"

text \<open>The arrays of a \<open>struct vgic_v3\<close> have the lengths of their declarations.\<close>

definition vgic_wf :: "vgic_v3 \<Rightarrow> bool" where
  "vgic_wf vgic \<longleftrightarrow>
     length (gicd_isenabler vgic) = 32 \<and>
     length (gicd_icenabler vgic) = 32 \<and>
     length (gicd_ipriorityr vgic) = 256 \<and>
     length (pending_irqs vgic) = BITS_TO_LONGS 1024 \<and>
     length (active_irqs vgic) = BITS_TO_LONGS 1024"

subsection \<open>Initialisation\<close>

text \<open>\<open>xzalloc(struct vgic_v3)\<close>: every byte of the new struct is zero.\<close>

definition vgic_zeroed :: vgic_v3 where
  "vgic_zeroed =
     \<lparr>gicd_ctlr = 0, gicd_typer = 0,
      gicd_isenabler = replicate 32 0,
      gicd_icenabler = replicate 32 0,
      gicd_ipriorityr = replicate 256 0,
      gicr_ctlr = 0, gicr_waker = 0,
      pending_irqs = replicate (BITS_TO_LONGS 1024) 0,
      active_irqs = replicate (BITS_TO_LONGS 1024) 0\<rparr>"

text \<open>
  \<open>vgic_v3_init\<close>. Whether the allocation succeeds is the argument \<open>alloc_ok\<close>; the
  result is the return code and the domain.
\<close>

definition vgic_v3_init :: "bool \<Rightarrow> domain \<Rightarrow> int \<times> domain" where
  "vgic_v3_init alloc_ok d =
     (if \<not> alloc_ok then (- ENOMEM, d)
      else (0, d\<lparr>arch_vgic :=
                   Some (vgic_zeroed\<lparr>gicd_ctlr := 0, gicd_typer := push_bit 5 1023\<rparr>)\<rparr>))"

subsection \<open>Injection and end of interrupt\<close>

text \<open>
  \<open>vgic_inject_irq\<close> returns \<open>void\<close>: the model returns the domain after the call, or
  the fault. The range check comes first, before \<open>vgic\<close> is dereferenced.
\<close>

definition vgic_inject_irq :: "domain \<Rightarrow> u32 \<Rightarrow> fault + domain" where
  "vgic_inject_irq d virq =
     (if virq \<ge> 1024 then Inr d
      else case arch_vgic d of
        None \<Rightarrow> Inl Null_pointer
      | Some vgic \<Rightarrow>
          (case set_bit_bm (unat virq) (pending_irqs vgic) of
             Inl e \<Rightarrow> Inl e
           | Inr p \<Rightarrow>
               (case vcpu d of
                  [] \<Rightarrow> Inl Out_of_bounds
                | v0 # _ \<Rightarrow>
                    Inr (vgic_vcpu_inject_irq v0 virq
                           (d\<lparr>arch_vgic := Some (vgic\<lparr>pending_irqs := p\<rparr>)\<rparr>)))))"

text \<open>
  \<open>vgic_eoi_irq v virq\<close>; the argument \<open>d\<close> is the domain \<open>v->domain\<close>. There is no
  range check. The pending bit is tested after the active bit is cleared; the two bitmaps
  are different arrays.
\<close>

definition vgic_eoi_irq :: "domain \<Rightarrow> vcpu \<Rightarrow> u32 \<Rightarrow> fault + domain" where
  "vgic_eoi_irq d v virq =
     (case arch_vgic d of
        None \<Rightarrow> Inl Null_pointer
      | Some vgic \<Rightarrow>
          (case clear_bit_bm (unat virq) (active_irqs vgic) of
             Inl e \<Rightarrow> Inl e
           | Inr a \<Rightarrow>
               (case test_bit_bm (unat virq) (pending_irqs vgic) of
                  Inl e \<Rightarrow> Inl e
                | Inr still_pending \<Rightarrow>
                    (let d' = d\<lparr>arch_vgic := Some (vgic\<lparr>active_irqs := a\<rparr>)\<rparr>
                     in Inr (if still_pending then vgic_vcpu_inject_irq v virq d' else d')))))"

text \<open>
  Modelled from the spec: the guest acknowledge step is not in the source files. The spec
  (section 4.4) says that it clears pending, sets active and returns the interrupt number
  to the guest, and that it returns a "no interrupt" sentinel when no interrupt is
  pending. The interrupt the guest acknowledges is the argument \<open>virq\<close>; the sentinel is
  \<open>None\<close>.
\<close>

definition acknowledge :: "domain \<Rightarrow> u32 \<Rightarrow> fault + (u32 option \<times> domain)" where
  "acknowledge d virq =
     (case arch_vgic d of
        None \<Rightarrow> Inl Null_pointer
      | Some vgic \<Rightarrow>
          (case test_bit_bm (unat virq) (pending_irqs vgic) of
             Inl e \<Rightarrow> Inl e
           | Inr is_pending \<Rightarrow>
               if \<not> is_pending then Inr (None, d)
               else
                 (case clear_bit_bm (unat virq) (pending_irqs vgic) of
                    Inl e \<Rightarrow> Inl e
                  | Inr p \<Rightarrow>
                      (case set_bit_bm (unat virq) (active_irqs vgic) of
                         Inl e \<Rightarrow> Inl e
                       | Inr a \<Rightarrow>
                           Inr (Some virq,
                                d\<lparr>arch_vgic :=
                                    Some (vgic\<lparr>pending_irqs := p, active_irqs := a\<rparr>)\<rparr>)))))"

subsection \<open>Register emulation\<close>

text \<open>
  Modelled from the spec: the offsets \<open>GICD_CTLR\<close> and \<open>GICD_TYPER\<close> are defined in
  \<open>asm/gic_v3_defs.h\<close>, not in this repository; the register table of the spec
  (section 6) puts global-control at offset 0x000 and type-info at offset 0x004. The base
  address \<open>GICD_BASE\<close> of the window is an argument of the two functions.
\<close>

definition GICD_CTLR :: u64 where
  "GICD_CTLR = 0x000"

definition GICD_TYPER :: u64 where
  "GICD_TYPER = 0x004"

text \<open>
  \<open>vgic_read_reg v addr\<close>, with \<open>d\<close> the domain \<open>v->domain\<close>. The sum
  \<open>GICD_BASE + 0x10000\<close> wraps around as 64-bit arithmetic does. The struct is read
  only in the two cases of the switch.
\<close>

definition vgic_read_reg :: "u64 \<Rightarrow> domain \<Rightarrow> u64 \<Rightarrow> fault + u32" where
  "vgic_read_reg GICD_BASE d addr =
     (if addr \<ge> GICD_BASE \<and> addr < GICD_BASE + 0x10000 then
        (if addr - GICD_BASE = GICD_CTLR then
           (case arch_vgic d of None \<Rightarrow> Inl Null_pointer
            | Some vgic \<Rightarrow> Inr (gicd_ctlr vgic))
         else if addr - GICD_BASE = GICD_TYPER then
           (case arch_vgic d of None \<Rightarrow> Inl Null_pointer
            | Some vgic \<Rightarrow> Inr (gicd_typer vgic))
         else Inr 0)
      else Inr 0)"

definition vgic_write_reg :: "u64 \<Rightarrow> domain \<Rightarrow> u64 \<Rightarrow> u32 \<Rightarrow> fault + domain" where
  "vgic_write_reg GICD_BASE d addr val =
     (if addr \<ge> GICD_BASE \<and> addr < GICD_BASE + 0x10000 then
        (if addr - GICD_BASE = GICD_CTLR then
           (case arch_vgic d of None \<Rightarrow> Inl Null_pointer
            | Some vgic \<Rightarrow> Inr (d\<lparr>arch_vgic := Some (vgic\<lparr>gicd_ctlr := val AND 0x3\<rparr>)\<rparr>))
         else Inr d)
      else Inr d)"

section \<open>Interrupt routing (\<open>arm64-irq.c\<close>)\<close>

subsection \<open>Data\<close>

text \<open>
  A \<open>cpumask_t\<close> is a bitmap of \<open>NR_CPUS\<close> bits, one for each physical CPU number
  below \<open>NR_CPUS\<close>: the model keeps the set of the numbers whose bit is set.
  \<open>desc->affinity\<close> is a pointer to such an object, and \<open>irq_init\<close> stores the
  address of the one global mask \<open>cpu_online_mask\<close> in every descriptor it creates, so
  the masks live in a store indexed by their address and a descriptor holds the address
  (\<open>None\<close> is the null pointer).
\<close>

type_synonym cpumask_t = "nat set"

datatype cpumask_ref = Cpu_online_mask | Cpumask_at nat

text \<open>
  Modelled from the spec: \<open>cpumask_set_cpu\<close> and the constant \<open>NR_CPUS\<close> come from
  the hypervisor's headers, not from this repository; the spec (section 3) has the
  affinity as a set of physical CPU identifiers. The call sets the bit of one CPU and
  clears none. The number of bits of a mask is the first argument; a CPU number that has no
  bit in the mask is the fault \<open>Out_of_bounds\<close>.
\<close>

definition cpumask_set_cpu :: "nat \<Rightarrow> nat \<Rightarrow> cpumask_t \<Rightarrow> fault + cpumask_t" where
  "cpumask_set_cpu nr_cpus cpu dstp =
     (if cpu < nr_cpus then Inr (insert cpu dstp) else Inl Out_of_bounds)"

text \<open>
  \<open>struct irq_desc\<close>. The fields \<open>action_list\<close> and \<open>gic_channel\<close> are left out:
  no function of the file reads or writes them.
\<close>

record irq_desc =
  irq :: u32
  affinity :: "cpumask_ref option"
  is_gic_sgi :: bool
  gic_irq_type :: u32

text \<open>
  Modelled from the spec: the driver of the physical controller (\<open>gic_v3_init\<close>,
  \<open>gicv3_dist_init\<close>, \<open>gicv3_rdist_cpu_init\<close>, \<open>gicv3_cpuif_enable\<close>,
  \<open>gicv3_rdist_route_ppi\<close>, \<open>gicv3_dist_route_spi\<close>) is outside this repository;
  the spec (section 6) takes it as reliable. Each call, and the write of the system
  register \<open>ICC_SGI1R_EL1\<close>, is recorded in order with its arguments (the handle
  \<open>gic\<close> left out).
\<close>

datatype hw_access =
    Gic_v3_init
  | Gicv3_dist_init
  | Gicv3_rdist_cpu_init u32
  | Gicv3_cpuif_enable
  | Msr_ICC_SGI1R_EL1 u64
  | Gicv3_rdist_route_ppi u32 u32 u32
  | Gicv3_dist_route_spi u32 u32 u32

text \<open>
  The globals of the file and the memory it reaches: the radix tree \<open>irq_descs\<close> (a map
  from the interrupt number to the descriptor), the store of the \<open>cpumask_t\<close> objects,
  the record of the hardware accesses, and the constant \<open>NR_CPUS\<close> of the build, which
  no function changes.
\<close>

record irq_state =
  irq_descs :: "nat \<rightharpoonup> irq_desc"
  cpumasks :: "cpumask_ref \<rightharpoonup> cpumask_t"
  hw :: "hw_access list"
  NR_CPUS :: nat

text \<open>
  Modelled from the spec: \<open>radix_tree_insert\<close> and \<open>radix_tree_lookup\<close> are the
  hypervisor's; the spec (section 4.1) has a lookup that yields the descriptor or nothing.
  An insertion at a key already present leaves the tree as it is.
\<close>

definition radix_tree_insert :: "(nat \<rightharpoonup> 'a) \<Rightarrow> nat \<Rightarrow> 'a \<Rightarrow> (nat \<rightharpoonup> 'a)" where
  "radix_tree_insert t index item =
     (case t index of None \<Rightarrow> t(index \<mapsto> item) | Some _ \<Rightarrow> t)"

definition radix_tree_lookup :: "(nat \<rightharpoonup> 'a) \<Rightarrow> nat \<Rightarrow> 'a option" where
  "radix_tree_lookup t index = t index"

subsection \<open>Initialisation\<close>

text \<open>The descriptor the loop of \<open>irq_init\<close> builds for \<open>i\<close>, from a zeroed struct.\<close>

definition irq_init_desc :: "nat \<Rightarrow> irq_desc" where
  "irq_init_desc i =
     \<lparr>irq = of_nat i, affinity = Some Cpu_online_mask,
      is_gic_sgi = (i < 16), gic_irq_type = 0\<rparr>"

text \<open>
  \<open>irq_init\<close>. Arguments: whether \<open>gic_v3_init\<close> returns a controller, which of the
  32 allocations succeed, the present CPUs and \<open>smp_processor_id()\<close>. A failed
  allocation skips that interrupt number.
\<close>

definition irq_init ::
  "bool \<Rightarrow> (nat \<Rightarrow> bool) \<Rightarrow> u32 list \<Rightarrow> u32 \<Rightarrow> irq_state \<Rightarrow> fault + irq_state" where
  "irq_init gic_ok alloc_ok present_cpus this_cpu g =
     (if \<not> gic_ok then Inl Panic
      else Inr (g\<lparr>irq_descs :=
                    fold (\<lambda>i t. if alloc_ok i then radix_tree_insert t i (irq_init_desc i) else t)
                      [0..<32] Map.empty,
                  hw := hw g @ [Gic_v3_init, Gicv3_dist_init]
                          @ map (\<lambda>_. Gicv3_rdist_cpu_init this_cpu) present_cpus
                          @ [Gicv3_cpuif_enable]\<rparr>))"

subsection \<open>Routing\<close>

text \<open>
  The value of the local \<open>sgi_reg\<close> in the branch for software-generated interrupts.
  \<open>(irq & 0xf) << 24\<close> is computed in 32 bits and then widened; \<open>target_cpu + 16\<close>
  is 32-bit arithmetic; shifting the 64-bit \<open>1ULL\<close> by 64 or more is undefined.
\<close>

definition sgi_reg :: "u32 \<Rightarrow> u32 \<Rightarrow> fault + u64" where
  "sgi_reg irq_no target_cpu =
     (if unat (target_cpu + 16) \<ge> 64 then Inl Undefined_shift
      else Inr (push_bit 40 1
                OR ucast (push_bit 24 (irq_no AND 0xf))
                OR push_bit (unat (target_cpu + 16)) 1))"

text \<open>
  \<open>irq_route_to_guest d irq vcpu_id\<close>: the result is the return code and the globals
  after the call. The domain is only read. \<open>cpumask_set_cpu\<close> adds one CPU to the mask
  \<open>desc->affinity\<close> points to, and faults for a CPU number the mask has no bit for.
\<close>

definition irq_route_to_guest ::
  "irq_state \<Rightarrow> domain \<Rightarrow> u32 \<Rightarrow> u32 \<Rightarrow> fault + (int \<times> irq_state)" where
  "irq_route_to_guest g d irq_no vcpu_idx =
     (if unat vcpu_idx \<ge> length (vcpu d) then Inl Out_of_bounds
      else
        (let target_cpu = processor (vcpu d ! unat vcpu_idx) in
         case radix_tree_lookup (irq_descs g) (unat irq_no) of
           None \<Rightarrow> Inr (- EINVAL, g)
         | Some desc \<Rightarrow>
             if is_gic_sgi desc then
               (case sgi_reg irq_no target_cpu of
                  Inl e \<Rightarrow> Inl e
                | Inr r \<Rightarrow> Inr (0, g\<lparr>hw := hw g @ [Msr_ICC_SGI1R_EL1 r]\<rparr>))
             else
               (let g' = (if irq_no < 32
                          then g\<lparr>hw := hw g @ [Gicv3_rdist_route_ppi target_cpu irq_no
                                                   (gic_irq_type desc)]\<rparr>
                          else g\<lparr>hw := hw g @ [Gicv3_dist_route_spi irq_no target_cpu
                                                   (gic_irq_type desc)]\<rparr>)
                in case affinity desc of
                     None \<Rightarrow> Inl Null_pointer
                   | Some m \<Rightarrow>
                       (case cpumasks g' m of
                          None \<Rightarrow> Inl Null_pointer
                        | Some cpus \<Rightarrow>
                            (case cpumask_set_cpu (NR_CPUS g') (unat target_cpu) cpus of
                               Inl e \<Rightarrow> Inl e
                             | Inr cpus' \<Rightarrow>
                                 Inr (0, g'\<lparr>cpumasks := (cpumasks g')(m \<mapsto> cpus')\<rparr>))))))"

subsection \<open>Observations\<close>

text \<open>
  Reading back the affinity of an interrupt: the mask its descriptor points to, if the
  interrupt has a descriptor with a valid pointer.
\<close>

definition irq_affinity :: "irq_state \<Rightarrow> u32 \<Rightarrow> cpumask_t option" where
  "irq_affinity g irq_no =
     (case radix_tree_lookup (irq_descs g) (unat irq_no) of
        None \<Rightarrow> None
      | Some desc \<Rightarrow> (case affinity desc of None \<Rightarrow> None | Some m \<Rightarrow> cpumasks g m))"

text \<open>
  The fields of the directive as \<open>irq_route_to_guest\<close> lays them out: the target list
  starts at bit 16 and ends below the interrupt number, which takes bits 24 to 27.
\<close>

definition sgi_target_list :: "u64 \<Rightarrow> u64" where
  "sgi_target_list r = take_bit 8 (drop_bit 16 r)"

definition sgi_intid :: "u64 \<Rightarrow> u64" where
  "sgi_intid r = take_bit 4 (drop_bit 24 r)"

text \<open>The state of one interrupt of a controller: its pending and its active bit.\<close>

definition irq_pending :: "domain \<Rightarrow> u32 \<Rightarrow> bool" where
  "irq_pending d virq \<longleftrightarrow>
     (case arch_vgic d of None \<Rightarrow> False
      | Some vgic \<Rightarrow> test_bit_bm (unat virq) (pending_irqs vgic) = Inr True)"

definition irq_active :: "domain \<Rightarrow> u32 \<Rightarrow> bool" where
  "irq_active d virq \<longleftrightarrow>
     (case arch_vgic d of None \<Rightarrow> False
      | Some vgic \<Rightarrow> test_bit_bm (unat virq) (active_irqs vgic) = Inr True)"

text \<open>
  Modelled from the spec: no function of the sources reads the enable state of an
  interrupt. The spec (invariant 2 of section 3 and the register table of section 6) calls
  an interrupt enabled when the global enable of the distributor, bits [1:0] of
  global-control, and the bit of the interrupt in the enable-set registers are set,
  enable-set[n] holding the interrupts 32n to 32n+31.
\<close>

definition irq_enabled :: "domain \<Rightarrow> u32 \<Rightarrow> bool" where
  "irq_enabled d virq \<longleftrightarrow>
     (case arch_vgic d of None \<Rightarrow> False
      | Some vgic \<Rightarrow>
          gicd_ctlr vgic AND 0x3 \<noteq> 0 \<and>
          bit (gicd_isenabler vgic ! (unat virq div 32)) (unat virq mod 32))"

subsection \<open>Concrete states\<close>

text \<open>A domain with two vCPUs, on the physical CPUs 0 and 2, after \<open>vgic_v3_init\<close>.\<close>

definition dom0 :: domain where
  "dom0 = snd (vgic_v3_init True
            \<lparr>domain_id = 0,
             vcpu = [\<lparr>vcpu_id = 0, processor = 0\<rparr>, \<lparr>vcpu_id = 1, processor = 2\<rparr>],
             arch_vgic = None, delivered = []\<rparr>)"

text \<open>
  The globals before \<open>irq_init\<close> on a machine with 16 CPUs, all online, built with
  \<open>NR_CPUS\<close> = 16, and after \<open>irq_init\<close> has run there with every allocation
  succeeding.
\<close>

definition globals0 :: irq_state where
  "globals0 = \<lparr>irq_descs = Map.empty,
               cpumasks = [Cpu_online_mask \<mapsto> {0..<16}],
               hw = [], NR_CPUS = 16\<rparr>"

definition globals_boot :: irq_state where
  "globals_boot =
     (case irq_init True (\<lambda>_. True) (map of_nat [0..<16]) 0 globals0 of
        Inl _ \<Rightarrow> globals0
      | Inr g \<Rightarrow> g)"

text \<open>A domain whose only vCPU runs on the physical CPU 8.\<close>

definition dom8 :: domain where
  "dom8 = dom0\<lparr>vcpu := [\<lparr>vcpu_id = 0, processor = 8\<rparr>]\<rparr>"

section \<open>Bitmap lemmas\<close>

lemma BITS_TO_LONGS_1024: "BITS_TO_LONGS 1024 = 16"
  by (simp add: BITS_TO_LONGS_def BITS_PER_LONG_def)

lemma length_set_bit_bm: "set_bit_bm nr bm = Inr bm' \<Longrightarrow> length bm' = length bm"
  by (auto simp: set_bit_bm_def split: if_splits)


lemma bit_index_eq:
  "(m div 64 = n div 64 \<and> m mod 64 = n mod 64) \<longleftrightarrow> m = (n::nat)"
  by (metis div_mult_mod_eq)

lemma test_set_bit_bm:
  assumes "set_bit_bm n bm = Inr bm'" and "m < 64 * length bm"
  shows "test_bit_bm m bm' = Inr (m = n \<or> test_bit_bm m bm = Inr True)"
proof -
  from assms(1) have n: "n div 64 < length bm"
    and bm': "bm' = bm[n div 64 := (bm ! (n div 64)) OR push_bit (n mod 64) 1]"
    by (auto simp: set_bit_bm_def BITS_PER_LONG_def split: if_splits)
  from assms(2) have m: "m div 64 < length bm"
    by (simp add: less_mult_imp_div_less mult.commute)
  show ?thesis
  proof (cases "m div 64 = n div 64")
    case True
    then show ?thesis using n m bm' bit_index_eq [of m n]
      by (auto simp: test_bit_bm_def BITS_PER_LONG_def bit_simps)
  next
    case False
    then show ?thesis using n m bm'
      by (auto simp: test_bit_bm_def BITS_PER_LONG_def)
  qed
qed


lemma set_bit_bm_idem:
  assumes "test_bit_bm n bm = Inr True"
  shows "set_bit_bm n bm = Inr bm"
proof -
  from assms have n: "n div 64 < length bm" and b: "bit (bm ! (n div 64)) (n mod 64)"
    by (auto simp: test_bit_bm_def BITS_PER_LONG_def split: if_splits)
  have "(bm ! (n div 64)) OR push_bit (n mod 64) 1 = bm ! (n div 64)"
    using b by (intro bit_word_eqI) (auto simp: bit_simps)
  then show ?thesis using n
    by (simp add: set_bit_bm_def BITS_PER_LONG_def)
qed

lemma clear_set_bit_bm:
  assumes "test_bit_bm n bm = Inr False" and "set_bit_bm n bm = Inr bm'"
  shows "clear_bit_bm n bm' = Inr bm"
proof -
  from assms have n: "n div 64 < length bm" and b: "\<not> bit (bm ! (n div 64)) (n mod 64)"
    and bm': "bm' = bm[n div 64 := (bm ! (n div 64)) OR push_bit (n mod 64) 1]"
    by (auto simp: test_bit_bm_def set_bit_bm_def BITS_PER_LONG_def split: if_splits)
  have "((bm ! (n div 64)) OR push_bit (n mod 64) 1) AND NOT (push_bit (n mod 64) 1) = bm ! (n div 64)"
    using b by (intro bit_word_eqI) (auto simp: bit_simps)
  then show ?thesis using n bm'
    by (simp add: clear_bit_bm_def BITS_PER_LONG_def)
qed

lemma in_bounds_iff:
  "length bm = BITS_TO_LONGS 1024 \<Longrightarrow> (unat (virq::u32) div BITS_PER_LONG < length bm) \<longleftrightarrow> virq < 1024"
  by (auto simp: BITS_TO_LONGS_1024 BITS_PER_LONG_def word_less_nat_alt)

section \<open>What the operations of the controller return\<close>

lemma unat_virq_bound: "(virq::u32) < 1024 \<Longrightarrow> unat virq < 1024"
  by (simp add: word_less_nat_alt)

lemma vgic_wf_lengths:
  "vgic_wf vgic \<Longrightarrow> length (pending_irqs vgic) = 16 \<and> length (active_irqs vgic) = 16"
  by (simp add: vgic_wf_def BITS_TO_LONGS_1024)

lemma set_bit_bm_total:
  "nr < 64 * length bm \<Longrightarrow> \<exists>bm'. set_bit_bm nr bm = Inr bm'"
  by (simp add: set_bit_bm_def BITS_PER_LONG_def less_mult_imp_div_less mult.commute)

lemma clear_bit_bm_total:
  "nr < 64 * length bm \<Longrightarrow> \<exists>bm'. clear_bit_bm nr bm = Inr bm'"
  by (simp add: clear_bit_bm_def BITS_PER_LONG_def less_mult_imp_div_less mult.commute)

lemma test_bit_bm_total:
  "nr < 64 * length bm \<Longrightarrow> \<exists>b. test_bit_bm nr bm = Inr b"
  by (simp add: test_bit_bm_def BITS_PER_LONG_def less_mult_imp_div_less mult.commute)

lemma vgic_inject_irq_result:
  assumes "virq < 1024" and "arch_vgic d = Some vgic" and "vgic_wf vgic"
    and "vcpu d = v0 # vs"
  shows "\<exists>p. set_bit_bm (unat virq) (pending_irqs vgic) = Inr p \<and>
           vgic_inject_irq d virq =
             Inr (d\<lparr>arch_vgic := Some (vgic\<lparr>pending_irqs := p\<rparr>),
                    delivered := delivered d @ [(v0, virq)]\<rparr>)"
proof -
  have "unat virq < 64 * length (pending_irqs vgic)"
    using assms(1,3) by (simp add: vgic_wf_lengths unat_virq_bound)
  then obtain p where p: "set_bit_bm (unat virq) (pending_irqs vgic) = Inr p"
    using set_bit_bm_total by blast
  have "\<not> 1024 \<le> virq" using assms(1) by simp
  then show ?thesis using p assms(2,4)
    by (simp add: vgic_inject_irq_def vgic_vcpu_inject_irq_def)
qed

lemma vgic_eoi_irq_result:
  assumes "virq < 1024" and "arch_vgic d = Some vgic" and "vgic_wf vgic"
  shows "\<exists>a b. clear_bit_bm (unat virq) (active_irqs vgic) = Inr a \<and>
           test_bit_bm (unat virq) (pending_irqs vgic) = Inr b \<and>
           vgic_eoi_irq d v virq =
             Inr (d\<lparr>arch_vgic := Some (vgic\<lparr>active_irqs := a\<rparr>),
                    delivered := (if b then delivered d @ [(v, virq)] else delivered d)\<rparr>)"
proof -
  have n: "unat virq < 64 * length (pending_irqs vgic)" "unat virq < 64 * length (active_irqs vgic)"
    using assms(1,3) by (simp_all add: vgic_wf_lengths unat_virq_bound)
  obtain a where a: "clear_bit_bm (unat virq) (active_irqs vgic) = Inr a"
    using n clear_bit_bm_total by blast
  obtain b where b: "test_bit_bm (unat virq) (pending_irqs vgic) = Inr b"
    using n test_bit_bm_total by blast
  show ?thesis using a b assms(2)
    by (simp add: vgic_eoi_irq_def vgic_vcpu_inject_irq_def)
qed


lemma vgic_wf_pending_update:
  "vgic_wf vgic \<Longrightarrow> length p = length (pending_irqs vgic) \<Longrightarrow> vgic_wf (vgic\<lparr>pending_irqs := p\<rparr>)"
  by (simp add: vgic_wf_def)

lemma vgic_wf_active_update:
  "vgic_wf vgic \<Longrightarrow> length a = length (active_irqs vgic) \<Longrightarrow> vgic_wf (vgic\<lparr>active_irqs := a\<rparr>)"
  by (simp add: vgic_wf_def)

subsection \<open>The concrete domain\<close>

lemma dom0_arch_vgic: "arch_vgic dom0 = Some (vgic_zeroed\<lparr>gicd_ctlr := 0, gicd_typer := push_bit 5 1023\<rparr>)"
  by (simp add: dom0_def vgic_v3_init_def)

lemma vgic_zeroed_wf: "vgic_wf (vgic_zeroed\<lparr>gicd_ctlr := c, gicd_typer := t\<rparr>)"
  by (simp add: vgic_wf_def vgic_zeroed_def)

lemma dom0_vcpu: "vcpu dom0 = \<lparr>vcpu_id = 0, processor = 0\<rparr> # [\<lparr>vcpu_id = 1, processor = 2\<rparr>]"
  by (simp add: dom0_def vgic_v3_init_def)

lemma dom0_delivered: "delivered dom0 = []"
  by (simp add: dom0_def vgic_v3_init_def)

lemma test_bit_bm_zero:
  "nr < 1024 \<Longrightarrow> test_bit_bm nr (replicate (BITS_TO_LONGS 1024) 0) = Inr False"
  by (simp add: test_bit_bm_def BITS_TO_LONGS_1024 BITS_PER_LONG_def less_mult_imp_div_less)

lemma dom0_inactive: "virq < 1024 \<Longrightarrow> \<not> irq_pending dom0 virq \<and> \<not> irq_active dom0 virq"
  by (simp add: irq_pending_def irq_active_def dom0_arch_vgic vgic_zeroed_def
      test_bit_bm_zero unat_virq_bound)

lemma irq_pending_after_set:
  assumes "set_bit_bm (unat virq) (pending_irqs vgic) = Inr p"
  shows "irq_pending (d\<lparr>arch_vgic := Some (vgic\<lparr>pending_irqs := p\<rparr>), delivered := l\<rparr>) virq"
proof -
  have "unat virq < 64 * length (pending_irqs vgic)"
    using assms by (auto simp: set_bit_bm_def BITS_PER_LONG_def split: if_splits)
  then show ?thesis
    using test_set_bit_bm [OF assms] by (simp add: irq_pending_def)
qed

section \<open>Facts about routing\<close>

lemma irq_init_loop_lookup:
  "fold (\<lambda>i t. if alloc_ok i then radix_tree_insert t i (irq_init_desc i) else t)
     [0..<n] Map.empty k =
   (if k < n \<and> alloc_ok k then Some (irq_init_desc k) else None)"
proof (induction n arbitrary: k)
  case 0
  then show ?case by simp
next
  case (Suc n)
  let ?t = "fold (\<lambda>i t. if alloc_ok i then radix_tree_insert t i (irq_init_desc i) else t)
              [0..<n] Map.empty"
  have "?t n = None" using Suc [of n] by simp
  then have "radix_tree_insert ?t n (irq_init_desc n) = ?t(n \<mapsto> irq_init_desc n)"
    by (simp add: radix_tree_insert_def)
  then show ?case using Suc [of k] by (auto simp: less_Suc_eq)
qed

lemma irq_descs_boot:
  "irq_descs globals_boot k = (if k < 32 then Some (irq_init_desc k) else None)"
  using irq_init_loop_lookup [of "\<lambda>_. True" 32 k]
  by (simp add: globals_boot_def irq_init_def)

lemma cpumasks_boot: "cpumasks globals_boot = [Cpu_online_mask \<mapsto> {0..<16}]"
  by (simp add: globals_boot_def irq_init_def globals0_def)

lemma NR_CPUS_boot: "NR_CPUS globals_boot = 16"
  by (simp add: globals_boot_def irq_init_def globals0_def)

text \<open>
  What the branch for private and shared interrupts does to the affinity: the physical
  CPU of the vCPU is added to the mask the descriptor points to, and the CPUs that were in
  the mask stay in it.
\<close>

lemma irq_route_to_guest_affinity:
  assumes "unat vcpu_idx < length (vcpu d)"
    and "irq_descs g (unat irq_no) = Some desc" and "\<not> is_gic_sgi desc"
    and "affinity desc = Some m" and "cpumasks g m = Some cpus"
    and "unat (processor (vcpu d ! unat vcpu_idx)) < NR_CPUS g"
  shows "\<exists>g'. irq_route_to_guest g d irq_no vcpu_idx = Inr (0, g') \<and>
           irq_affinity g' irq_no =
             Some (insert (unat (processor (vcpu d ! unat vcpu_idx))) cpus)"
  using assms
  by (simp add: irq_route_to_guest_def irq_affinity_def radix_tree_lookup_def Let_def
      cpumask_set_cpu_def)

lemma irq_route_to_guest_cpu_out_of_range:
  assumes "unat vcpu_idx < length (vcpu d)"
    and "irq_descs g (unat irq_no) = Some desc" and "\<not> is_gic_sgi desc"
    and "affinity desc = Some m" and "cpumasks g m = Some cpus"
    and "NR_CPUS g \<le> unat (processor (vcpu d ! unat vcpu_idx))"
  shows "irq_route_to_guest g d irq_no vcpu_idx = Inl Out_of_bounds"
  using assms
  by (simp add: irq_route_to_guest_def radix_tree_lookup_def Let_def cpumask_set_cpu_def)

text \<open>
  After \<open>irq_init\<close> only the interrupts 0 to 31 have a descriptor: routing the shared
  interrupt 100 returns \<open>-EINVAL\<close> and changes nothing.
\<close>

lemma route_unknown_irq:
  "irq_route_to_guest globals_boot dom0 100 1 = Inr (- EINVAL, globals_boot)"
  by (simp add: irq_route_to_guest_def radix_tree_lookup_def irq_descs_boot dom0_vcpu)

text \<open>
  The directive for a target CPU below 8: one bit in bits 16 to 23 and the interrupt number
  in bits 24 to 27. For the CPU 3 and the interrupt 5 it is \<open>0x10005080000\<close>.
\<close>

lemma sgi_reg_low_cpu:
  assumes "target_cpu < 8"
  shows "\<exists>r. sgi_reg irq_no target_cpu = Inr r \<and>
           sgi_target_list r = push_bit (unat target_cpu) 1 \<and>
           sgi_intid r = ucast (irq_no AND 0xf)"
proof -
  have u: "unat target_cpu < 8" using assms by (simp add: word_less_nat_alt)
  then have s: "unat (target_cpu + 16) = unat target_cpu + 16"
    by (simp add: unat_word_ariths)
  define x where "x = irq_no AND 0xf"
  have "(0xf::u32) = mask 4" by (simp add: mask_eq_exp_minus_1)
  then have "x = take_bit 4 irq_no" by (simp add: x_def take_bit_eq_mask)
  then have x: "bit x k \<longleftrightarrow> k < 4 \<and> bit irq_no k" for k
    by (simp add: bit_simps)
  let ?r = "push_bit 40 1 OR ucast (push_bit 24 x) OR
            push_bit (unat target_cpu + 16) (1::u64)"
  have r: "sgi_reg irq_no target_cpu = Inr ?r"
    using u s by (simp add: sgi_reg_def x_def)
  have t: "sgi_target_list ?r = push_bit (unat target_cpu) 1"
    unfolding sgi_target_list_def using u
    by (intro bit_word_eqI) (auto simp: bit_simps x)
  have i: "sgi_intid ?r = ucast x"
    unfolding sgi_intid_def using u
    by (intro bit_word_eqI) (auto simp: bit_simps x)
  show ?thesis using r t i by (auto simp: x_def)
qed

lemma sgi_route_cpu3:
  "sgi_reg 5 3 = Inr 0x10005080000 \<and> sgi_target_list 0x10005080000 = push_bit 3 1 \<and>
   sgi_intid 0x10005080000 = 5"
  by (simp add: sgi_reg_def sgi_target_list_def sgi_intid_def)

lemma sgi_reg_cpu8: "sgi_reg 5 8 = Inr 0x10005000000" "sgi_reg 4 8 = Inr 0x10005000000"
  by (simp_all add: sgi_reg_def)

section \<open>The claims\<close>

subsection \<open>C1: injection and the enable state\<close>

text \<open>
  C1 as stated: injecting an interrupt makes it pending and triggers delivery only if the
  global enable and the enable bit of the interrupt are set. It fails: after
  \<open>vgic_v3_init\<close> the global-control register and every enable register are zero,
  and injecting the interrupt 5 sets its pending bit and calls the delivery step.
\<close>

theorem inject_disabled_counterexample:
  "\<not> irq_enabled dom0 5 \<and>
   (case vgic_inject_irq dom0 5 of
      Inl _ \<Rightarrow> False
    | Inr d' \<Rightarrow> irq_pending d' 5 \<and> delivered d' = [(\<lparr>vcpu_id = 0, processor = 0\<rparr>, 5)])"
proof -
  have r: "(5::u32) < 1024" by simp
  have "\<not> irq_enabled dom0 5"
    by (simp add: irq_enabled_def dom0_arch_vgic vgic_zeroed_def)
  moreover obtain p where "set_bit_bm (unat (5::u32))
       (pending_irqs (vgic_zeroed\<lparr>gicd_ctlr := 0, gicd_typer := push_bit 5 1023\<rparr>)) = Inr p"
    and "vgic_inject_irq dom0 5 =
       Inr (dom0\<lparr>arch_vgic := Some (vgic_zeroed\<lparr>gicd_ctlr := 0, gicd_typer := push_bit 5 1023\<rparr>\<lparr>pending_irqs := p\<rparr>),
                 delivered := delivered dom0 @ [(\<lparr>vcpu_id = 0, processor = 0\<rparr>, 5)]\<rparr>)"
    using vgic_inject_irq_result [OF r dom0_arch_vgic vgic_zeroed_wf dom0_vcpu] by blast
  ultimately show ?thesis
    using irq_pending_after_set [where d = dom0]
    by (simp add: dom0_delivered)
qed

text \<open>
  C1 as amended: \<open>vgic_inject_irq\<close> does not read the enable state. For an interrupt
  number below 1024, on a domain with an allocated controller and a first vCPU, whatever the
  global-control register \<open>c\<close> and the enable-set registers \<open>e\<close> hold, the call sets
  the pending bit and calls the delivery step once, for the first vCPU.
\<close>

theorem inject_whatever_enable_state:
  assumes "virq < 1024" and "arch_vgic d = Some vgic" and "vgic_wf vgic"
    and "vcpu d = v0 # vs"
  shows "\<exists>d'. vgic_inject_irq
                (d\<lparr>arch_vgic := Some (vgic\<lparr>gicd_ctlr := c, gicd_isenabler := e\<rparr>)\<rparr>) virq = Inr d' \<and>
           irq_pending d' virq \<and> delivered d' = delivered d @ [(v0, virq)]"
proof -
  let ?vg = "vgic\<lparr>gicd_ctlr := c, gicd_isenabler := e\<rparr>"
  let ?d = "d\<lparr>arch_vgic := Some ?vg\<rparr>"
  have n: "unat virq < 64 * length (pending_irqs ?vg)"
    using assms(1,3) by (simp add: vgic_wf_lengths unat_virq_bound)
  then obtain p where p: "set_bit_bm (unat virq) (pending_irqs ?vg) = Inr p"
    using set_bit_bm_total by blast
  have "\<not> 1024 \<le> virq" using assms(1) by simp
  then have "vgic_inject_irq ?d virq =
      Inr (?d\<lparr>arch_vgic := Some (?vg\<lparr>pending_irqs := p\<rparr>),
             delivered := delivered d @ [(v0, virq)]\<rparr>)"
    using p assms(4) by (simp add: vgic_inject_irq_def vgic_vcpu_inject_irq_def)
  then show ?thesis
    using irq_pending_after_set [OF p, where d = ?d] by simp
qed

text \<open>C1, witness: the controller after initialisation, both registers zero, interrupt 5.\<close>

theorem inject_whatever_enable_state_witness:
  "(5::u32) < 1024 \<and>
   (\<exists>d'. vgic_inject_irq
           (dom0\<lparr>arch_vgic :=
              Some (vgic_zeroed\<lparr>gicd_ctlr := 0, gicd_typer := push_bit 5 1023\<rparr>
                      \<lparr>gicd_ctlr := 0, gicd_isenabler := replicate 32 0\<rparr>)\<rparr>) 5 = Inr d' \<and>
      irq_pending d' 5 \<and> delivered d' = [(\<lparr>vcpu_id = 0, processor = 0\<rparr>, 5)])"
proof -
  have r: "(5::u32) < 1024" by simp
  show ?thesis
    using inject_whatever_enable_state [OF r dom0_arch_vgic vgic_zeroed_wf dom0_vcpu, where c = 0 and e = "replicate 32 0"]
    by (simp add: dom0_delivered)
qed

subsection \<open>C2: end of interrupt re-samples the pending bit\<close>




subsection \<open>C3: inject, acknowledge, end of interrupt\<close>

text \<open>
  C3. For an interrupt number below 1024 whose pending and active bits are clear, on a
  domain with an allocated controller and a first vCPU: the injection, the acknowledge and
  the end of interrupt, with nothing in between, all succeed and leave both bits clear.
  The delivery step is called once, by the injection, and not by the end of interrupt; the
  whole controller struct is as it was before the injection.
\<close>

theorem inject_ack_eoi_inactive:
  assumes "virq < 1024" and "arch_vgic d = Some vgic" and "vgic_wf vgic"
    and "vcpu d = v0 # vs"
    and "\<not> irq_pending d virq" and "\<not> irq_active d virq"
  shows "\<exists>d1 d2 d3.
           vgic_inject_irq d virq = Inr d1 \<and>
           acknowledge d1 virq = Inr (Some virq, d2) \<and>
           vgic_eoi_irq d2 v virq = Inr d3 \<and>
           \<not> irq_pending d3 virq \<and> \<not> irq_active d3 virq \<and>
           delivered d3 = delivered d1 \<and>
           delivered d1 = delivered d @ [(v0, virq)] \<and>
           arch_vgic d3 = arch_vgic d"
proof -
  have n: "unat virq < 64 * length (pending_irqs vgic)"
    "unat virq < 64 * length (active_irqs vgic)"
    using assms(1,3) by (simp_all add: vgic_wf_lengths unat_virq_bound)
  have np: "test_bit_bm (unat virq) (pending_irqs vgic) = Inr False"
    using assms(2,5) test_bit_bm_total [OF n(1)] by (auto simp: irq_pending_def)
  have na: "test_bit_bm (unat virq) (active_irqs vgic) = Inr False"
    using assms(2,6) test_bit_bm_total [OF n(2)] by (auto simp: irq_active_def)
  \<comment> \<open>inject\<close>
  obtain p where p: "set_bit_bm (unat virq) (pending_irqs vgic) = Inr p"
    and d1: "vgic_inject_irq d virq =
               Inr (d\<lparr>arch_vgic := Some (vgic\<lparr>pending_irqs := p\<rparr>),
                      delivered := delivered d @ [(v0, virq)]\<rparr>)"
    using vgic_inject_irq_result [OF assms(1-4)] by blast
  let ?vg1 = "vgic\<lparr>pending_irqs := p\<rparr>"
  let ?d1 = "d\<lparr>arch_vgic := Some ?vg1, delivered := delivered d @ [(v0, virq)]\<rparr>"
  have wf1: "vgic_wf ?vg1"
    using assms(3) length_set_bit_bm [OF p] by (simp add: vgic_wf_pending_update)
  have tp: "test_bit_bm (unat virq) (pending_irqs ?vg1) = Inr True"
    using test_set_bit_bm [OF p n(1)] by simp
  \<comment> \<open>acknowledge\<close>
  have cp: "clear_bit_bm (unat virq) p = Inr (pending_irqs vgic)"
    using clear_set_bit_bm [OF np p] .
  obtain a where a: "set_bit_bm (unat virq) (active_irqs vgic) = Inr a"
    using set_bit_bm_total [OF n(2)] by blast
  let ?vg2 = "vgic\<lparr>active_irqs := a\<rparr>"
  let ?d2 = "d\<lparr>arch_vgic := Some ?vg2, delivered := delivered d @ [(v0, virq)]\<rparr>"
  have d2: "acknowledge ?d1 virq = Inr (Some virq, ?d2)"
    using tp cp a by (simp add: acknowledge_def)
  have wf2: "vgic_wf ?vg2"
    using assms(3) length_set_bit_bm [OF a] by (simp add: vgic_wf_active_update)
  \<comment> \<open>end of interrupt\<close>
  have ca: "clear_bit_bm (unat virq) (active_irqs ?vg2) = Inr (active_irqs vgic)"
    using clear_set_bit_bm [OF na a] by simp
  have d3: "vgic_eoi_irq ?d2 v virq = Inr (d\<lparr>delivered := delivered d @ [(v0, virq)]\<rparr>)"
    using ca np assms(2) by (simp add: vgic_eoi_irq_def)
  have "\<not> irq_pending (d\<lparr>delivered := delivered d @ [(v0, virq)]\<rparr>) virq"
    "\<not> irq_active (d\<lparr>delivered := delivered d @ [(v0, virq)]\<rparr>) virq"
    using assms(5,6) by (simp_all add: irq_pending_def irq_active_def)
  then show ?thesis using d1 d2 d3 by simp
qed

text \<open>C3, witness: interrupt 40 on the initialised domain.\<close>

theorem inject_ack_eoi_inactive_witness:
  "(40::u32) < 1024 \<and> \<not> irq_pending dom0 40 \<and> \<not> irq_active dom0 40 \<and>
   (\<exists>d1 d2 d3.
      vgic_inject_irq dom0 40 = Inr d1 \<and>
      acknowledge d1 40 = Inr (Some 40, d2) \<and>
      vgic_eoi_irq d2 \<lparr>vcpu_id = 0, processor = 0\<rparr> 40 = Inr d3 \<and>
      \<not> irq_pending d3 40 \<and> \<not> irq_active d3 40 \<and>
      delivered d3 = [(\<lparr>vcpu_id = 0, processor = 0\<rparr>, 40)] \<and>
      arch_vgic d3 = arch_vgic dom0)"
proof -
  have r: "(40::u32) < 1024" by simp
  have i: "\<not> irq_pending dom0 40" "\<not> irq_active dom0 40"
    using dom0_inactive [OF r] by simp_all
  show ?thesis
    using inject_ack_eoi_inactive [OF r dom0_arch_vgic vgic_zeroed_wf dom0_vcpu i,
        where v = "\<lparr>vcpu_id = 0, processor = 0\<rparr>"] i
    by (auto simp: dom0_delivered)
qed

subsection \<open>C4: the directive for a software-generated interrupt\<close>

text \<open>
  C4 does not hold on the code. The target bit is \<open>1ULL << (target_cpu + 16)\<close>, the
  interrupt number is at bits 24 to 27 and a flag at bit 40, so only the CPUs 0 to 7 have
  a bit of their own (lemma \<open>sgi_reg_low_cpu\<close>). For a vCPU on the physical CPU 8 the
  target bit is bit 24, the lowest bit of the interrupt number: routing interrupt 5 writes
  \<open>0x10005000000\<close>, where no bit of the target list is set, and routing interrupt 4
  writes the same value, which names interrupt 5.
\<close>

theorem sgi_route_cpu8:
  "irq_route_to_guest globals_boot dom8 5 0 =
     Inr (0, globals_boot\<lparr>hw := hw globals_boot @ [Msr_ICC_SGI1R_EL1 0x10005000000]\<rparr>) \<and>
   irq_route_to_guest globals_boot dom8 4 0 =
     Inr (0, globals_boot\<lparr>hw := hw globals_boot @ [Msr_ICC_SGI1R_EL1 0x10005000000]\<rparr>) \<and>
   sgi_target_list 0x10005000000 = 0 \<and> sgi_intid 0x10005000000 = 5"
  by (simp add: irq_route_to_guest_def radix_tree_lookup_def irq_descs_boot dom8_def
      irq_init_desc_def sgi_reg_cpu8 sgi_target_list_def sgi_intid_def)

subsection \<open>C5: the affinity after routing\<close>

text \<open>
  C5 does not hold on the code. The function routes an interrupt to one CPU (its comments
  say so, and the write to the hardware names one CPU), but the affinity is updated with
  \<open>cpumask_set_cpu\<close>, which clears no bit, on the mask the descriptor points to, and
  every descriptor \<open>irq_init\<close> creates points to the global mask of the online CPUs.
  After \<open>irq_init\<close> on a machine with 16 CPUs, routing the private interrupt 20 to the
  vCPU on the physical CPU 2 returns 0 and names CPU 2 to the redistributor, and the
  affinity read back is the sixteen online CPUs, not the set of CPU 2.
\<close>

theorem route_affinity_after_boot:
  "(case irq_route_to_guest globals_boot dom0 20 1 of
      Inl _ \<Rightarrow> False
    | Inr (rc, g') \<Rightarrow> rc = 0 \<and>
        hw g' = hw globals_boot @ [Gicv3_rdist_route_ppi 2 20 0] \<and>
        irq_affinity g' 20 = Some {0..<16} \<and>
        irq_affinity g' 20 \<noteq> Some {2})"
proof -
  have "insert 2 {0..<16} = {0..<16::nat}" by auto
  moreover have "{0..<16} \<noteq> {2::nat}"
  proof
    assume "{0..<16} = {2::nat}"
    moreover have "(0::nat) \<in> {0..<16}" by simp
    ultimately show False by simp
  qed
  ultimately show ?thesis
    by (simp add: irq_route_to_guest_def irq_affinity_def radix_tree_lookup_def Let_def
        cpumask_set_cpu_def irq_descs_boot cpumasks_boot NR_CPUS_boot irq_init_desc_def
        dom0_vcpu)
qed

subsection \<open>C6: the range check of injection\<close>

text \<open>
  C6 as stated: injection fails with an error for an interrupt number of 1024 or more. It
  fails: \<open>vgic_inject_irq\<close> returns \<open>void\<close>; for the number 1024 the call returns
  normally, as it does for a number in range, and no error value comes out.
\<close>

theorem inject_out_of_range_counterexample:
  "vgic_inject_irq dom0 1024 = Inr dom0 \<and> \<not> isl (vgic_inject_irq dom0 1024)"
  by (simp add: vgic_inject_irq_def)

text \<open>
  C6 as amended: \<open>vgic_inject_irq\<close> has no result. For an interrupt number of 1024 or
  more the call returns with the domain unchanged, on every domain; for a number below 1024,
  on a domain with an allocated controller and a first vCPU, it returns with the pending
  bit set.
\<close>

theorem inject_range_check:
  "(virq \<ge> 1024 \<longrightarrow> vgic_inject_irq d virq = Inr d) \<and>
   (virq < 1024 \<and> arch_vgic d = Some vgic \<and> vgic_wf vgic \<and> vcpu d = v0 # vs \<longrightarrow>
      (\<exists>d'. vgic_inject_irq d virq = Inr d' \<and> irq_pending d' virq))"
proof -
  have "\<exists>d'. vgic_inject_irq d virq = Inr d' \<and> irq_pending d' virq"
    if h: "virq < 1024" "arch_vgic d = Some vgic" "vgic_wf vgic" "vcpu d = v0 # vs"
  proof -
    obtain p where p: "set_bit_bm (unat virq) (pending_irqs vgic) = Inr p"
      and d': "vgic_inject_irq d virq =
             Inr (d\<lparr>arch_vgic := Some (vgic\<lparr>pending_irqs := p\<rparr>),
                    delivered := delivered d @ [(v0, virq)]\<rparr>)"
      using vgic_inject_irq_result [OF h] by blast
    show ?thesis using d' irq_pending_after_set [OF p] by simp
  qed
  then show ?thesis by (simp add: vgic_inject_irq_def)
qed

text \<open>C6, witness: the numbers 1024 and 1023 on the initialised domain.\<close>

theorem inject_range_check_witness:
  "vgic_inject_irq dom0 1024 = Inr dom0 \<and>
   (\<exists>d'. vgic_inject_irq dom0 1023 = Inr d' \<and> irq_pending d' 1023)"
  using inject_range_check [where virq = 1024 and d = dom0]
    inject_range_check [where virq = 1023 and d = dom0
      and vgic = "vgic_zeroed\<lparr>gicd_ctlr := 0, gicd_typer := push_bit 5 1023\<rparr>"
      and ?v0.0 = "\<lparr>vcpu_id = 0, processor = 0\<rparr>" and vs = "[\<lparr>vcpu_id = 1, processor = 2\<rparr>]"]
    dom0_arch_vgic vgic_zeroed_wf dom0_vcpu
  by simp

subsection \<open>C7: injection coalesces\<close>

text \<open>
  C7. For an interrupt number below 1024, on a domain with an allocated controller and a
  first vCPU: injecting an interrupt whose pending bit is already set leaves the whole
  controller struct as it was, the pending and the active bitmap with it; and a second
  injection after a first one returns the controller of the first. (The delivery step is
  called at every injection; only the pending bit is coalesced.)
\<close>

theorem inject_coalesces:
  assumes "virq < 1024" and "arch_vgic d = Some vgic" and "vgic_wf vgic"
    and "vcpu d = v0 # vs"
  shows "(irq_pending d virq \<longrightarrow>
            (\<exists>d'. vgic_inject_irq d virq = Inr d' \<and> arch_vgic d' = arch_vgic d)) \<and>
         (\<exists>d1 d2. vgic_inject_irq d virq = Inr d1 \<and> vgic_inject_irq d1 virq = Inr d2 \<and>
            irq_pending d1 virq \<and> arch_vgic d2 = arch_vgic d1)"
proof -
  have n: "unat virq < 64 * length (pending_irqs vgic)"
    using assms(1,3) by (simp add: vgic_wf_lengths unat_virq_bound)
  obtain p where p: "set_bit_bm (unat virq) (pending_irqs vgic) = Inr p"
    and d1: "vgic_inject_irq d virq =
               Inr (d\<lparr>arch_vgic := Some (vgic\<lparr>pending_irqs := p\<rparr>),
                      delivered := delivered d @ [(v0, virq)]\<rparr>)"
    using vgic_inject_irq_result [OF assms] by blast
  let ?d1 = "d\<lparr>arch_vgic := Some (vgic\<lparr>pending_irqs := p\<rparr>),
                delivered := delivered d @ [(v0, virq)]\<rparr>"
  have first: "irq_pending d virq \<longrightarrow>
      (\<exists>d'. vgic_inject_irq d virq = Inr d' \<and> arch_vgic d' = arch_vgic d)"
  proof
    assume "irq_pending d virq"
    then have "test_bit_bm (unat virq) (pending_irqs vgic) = Inr True"
      using assms(2) by (simp add: irq_pending_def)
    then have "p = pending_irqs vgic"
      using set_bit_bm_idem p by fastforce
    then show "\<exists>d'. vgic_inject_irq d virq = Inr d' \<and> arch_vgic d' = arch_vgic d"
      using d1 assms(2) by simp
  qed
  have tp: "test_bit_bm (unat virq) p = Inr True"
    using test_set_bit_bm [OF p n] by simp
  then have pend1: "irq_pending ?d1 virq"
    by (simp add: irq_pending_def)
  have wf1: "vgic_wf (vgic\<lparr>pending_irqs := p\<rparr>)"
    using assms(3) length_set_bit_bm [OF p] by (simp add: vgic_wf_pending_update)
  obtain p' where p': "set_bit_bm (unat virq) (pending_irqs (vgic\<lparr>pending_irqs := p\<rparr>)) = Inr p'"
    and d2: "vgic_inject_irq ?d1 virq =
               Inr (?d1\<lparr>arch_vgic := Some (vgic\<lparr>pending_irqs := p\<rparr>\<lparr>pending_irqs := p'\<rparr>),
                      delivered := delivered ?d1 @ [(v0, virq)]\<rparr>)"
    using vgic_inject_irq_result [of virq ?d1 "vgic\<lparr>pending_irqs := p\<rparr>" v0 vs] assms(1,4) wf1
    by auto
  have "p' = p" using p' set_bit_bm_idem [OF tp] by simp
  then show ?thesis using first d1 d2 pend1 by simp
qed

text \<open>C7, witness: interrupt 50 injected twice on the initialised domain.\<close>

theorem inject_coalesces_witness:
  "(50::u32) < 1024 \<and>
   (case vgic_inject_irq dom0 50 of
      Inl _ \<Rightarrow> False
    | Inr d1 \<Rightarrow> irq_pending d1 50 \<and>
        (\<exists>d2. vgic_inject_irq d1 50 = Inr d2 \<and> arch_vgic d2 = arch_vgic d1))"
proof -
  have r: "(50::u32) < 1024" by simp
  obtain p where p: "set_bit_bm (unat (50::u32)) (pending_irqs (vgic_zeroed\<lparr>gicd_ctlr := 0, gicd_typer := push_bit 5 1023\<rparr>)) = Inr p"
    and d1: "vgic_inject_irq dom0 50 =
       Inr (dom0\<lparr>arch_vgic := Some (vgic_zeroed\<lparr>gicd_ctlr := 0, gicd_typer := push_bit 5 1023\<rparr>\<lparr>pending_irqs := p\<rparr>),
                 delivered := delivered dom0 @ [(\<lparr>vcpu_id = 0, processor = 0\<rparr>, 50)]\<rparr>)"
    using vgic_inject_irq_result [OF r dom0_arch_vgic vgic_zeroed_wf dom0_vcpu] by blast
  let ?vg = "vgic_zeroed\<lparr>gicd_ctlr := 0, gicd_typer := push_bit 5 1023\<rparr>\<lparr>pending_irqs := p\<rparr>"
  let ?d1 = "dom0\<lparr>arch_vgic := Some ?vg,
                 delivered := delivered dom0 @ [(\<lparr>vcpu_id = 0, processor = 0\<rparr>, 50)]\<rparr>"
  have wf: "vgic_wf ?vg"
    using vgic_zeroed_wf length_set_bit_bm [OF p] by (simp add: vgic_wf_def)
  have a: "arch_vgic ?d1 = Some ?vg" by simp
  have v: "vcpu ?d1 = \<lparr>vcpu_id = 0, processor = 0\<rparr> # [\<lparr>vcpu_id = 1, processor = 2\<rparr>]"
    using dom0_vcpu by simp
  have pend: "irq_pending ?d1 50"
    using p by (simp add: irq_pending_def set_bit_bm_def test_bit_bm_def vgic_zeroed_def
        BITS_TO_LONGS_1024 BITS_PER_LONG_def split: if_splits) auto
  show ?thesis
    using inject_coalesces [OF r a wf v] pend d1 by auto
qed

subsection \<open>C8: accesses to unrecognised registers\<close>

text \<open>
  C8. A read at an address that is neither the global-control nor the type-info register
  returns zero and never faults; a write at an address that is not the global-control
  register returns the domain unchanged. This holds for every base address, inside and
  outside the window of the distributor, also when the controller is not allocated.
\<close>

theorem unrecognised_register_access:
  "(addr \<noteq> GICD_BASE + GICD_CTLR \<and> addr \<noteq> GICD_BASE + GICD_TYPER \<longrightarrow>
      vgic_read_reg GICD_BASE d addr = Inr 0) \<and>
   (addr \<noteq> GICD_BASE + GICD_CTLR \<longrightarrow> vgic_write_reg GICD_BASE d addr val = Inr d)"
proof -
  have "addr - GICD_BASE = x \<longleftrightarrow> addr = GICD_BASE + x" for x
    by auto
  then show ?thesis
    by (simp add: vgic_read_reg_def vgic_write_reg_def)
qed

text \<open>C8, witness: offset 8 of a window at \<open>0x8000000\<close>.\<close>

theorem unrecognised_register_access_witness:
  "vgic_read_reg 0x8000000 dom0 0x8000008 = Inr 0 \<and>
   vgic_write_reg 0x8000000 dom0 0x8000008 0xffffffff = Inr dom0"
  using unrecognised_register_access [of "0x8000008" "0x8000000" dom0 "0xffffffff"]
  by (simp add: GICD_CTLR_def GICD_TYPER_def)

subsection \<open>C9: injection delivers to the first vCPU\<close>

text \<open>
  C9. For an interrupt number below 1024, on a domain with an allocated controller and a
  first vCPU, \<open>vgic_inject_irq\<close> calls the delivery step once, with \<open>d->vcpu[0]\<close>.
  The routing state is not an argument of the function and \<open>irq_route_to_guest\<close> only
  reads the domain, so no earlier routing changes the target.
\<close>

theorem inject_delivers_to_vcpu0:
  assumes "virq < 1024" and "arch_vgic d = Some vgic" and "vgic_wf vgic"
    and "vcpu d = v0 # vs"
  shows "\<exists>d'. vgic_inject_irq d virq = Inr d' \<and>
           delivered d' = delivered d @ [(vcpu d ! 0, virq)]"
  using vgic_inject_irq_result [OF assms] assms(4) by auto

text \<open>
  C9, witness: after \<open>irq_init\<close> the interrupt 20 is routed to the second vCPU of the
  initialised domain; injecting it still delivers to the first one.
\<close>

theorem inject_delivers_to_vcpu0_witness:
  "(20::u32) < 1024 \<and>
   (\<exists>g'. irq_route_to_guest globals_boot dom0 20 1 = Inr (0, g')) \<and>
   (\<exists>d'. vgic_inject_irq dom0 20 = Inr d' \<and>
      delivered d' = [(\<lparr>vcpu_id = 0, processor = 0\<rparr>, 20)])"
proof -
  have r: "(20::u32) < 1024" by simp
  have "\<exists>g'. irq_route_to_guest globals_boot dom0 20 1 = Inr (0, g')"
    by (simp add: irq_route_to_guest_def radix_tree_lookup_def Let_def cpumask_set_cpu_def
        irq_descs_boot cpumasks_boot NR_CPUS_boot irq_init_desc_def dom0_vcpu)
  then show ?thesis
    using inject_delivers_to_vcpu0 [OF r dom0_arch_vgic vgic_zeroed_wf dom0_vcpu]
    by (simp add: dom0_vcpu dom0_delivered)
qed

subsection \<open>C10: the bounds of the end of interrupt\<close>

text \<open>
  C10. On a domain with an allocated, well-formed controller, \<open>vgic_eoi_irq\<close> accesses
  the bitmaps out of bounds exactly when the interrupt number is 1024 or more, and it
  returns exactly when the number is below 1024; \<open>vgic_inject_irq\<close>, which checks the
  range, returns for every number (the domain having a first vCPU).
\<close>

theorem eoi_in_bounds_iff:
  assumes "arch_vgic d = Some vgic" and "vgic_wf vgic" and "vcpu d = v0 # vs"
  shows "(vgic_eoi_irq d v virq = Inl Out_of_bounds \<longleftrightarrow> virq \<ge> 1024) \<and>
         ((\<exists>d'. vgic_eoi_irq d v virq = Inr d') \<longleftrightarrow> virq < 1024) \<and>
         (\<exists>d'. vgic_inject_irq d virq = Inr d')"
proof -
  have inj: "\<exists>d'. vgic_inject_irq d virq = Inr d'"
  proof (cases "virq < 1024")
    case True
    then show ?thesis using vgic_inject_irq_result [OF True assms] by blast
  next
    case False
    then have "virq \<ge> 1024" by simp
    then show ?thesis by (simp add: vgic_inject_irq_def)
  qed
  have ok: "virq < 1024 \<Longrightarrow> \<exists>d'. vgic_eoi_irq d v virq = Inr d'"
    using vgic_eoi_irq_result [OF _ assms(1,2)] by blast
  have bad: "vgic_eoi_irq d v virq = Inl Out_of_bounds" if "virq \<ge> 1024"
  proof -
    have "\<not> unat virq div BITS_PER_LONG < length (active_irqs vgic)"
      using that assms(2) in_bounds_iff [of "active_irqs vgic" virq]
      by (simp add: vgic_wf_def)
    then show ?thesis using assms(1)
      by (simp add: vgic_eoi_irq_def clear_bit_bm_def)
  qed
  have "(vgic_eoi_irq d v virq = Inl Out_of_bounds) = (virq \<ge> 1024)"
    using ok bad by (cases "virq < 1024") auto
  moreover have "(\<exists>d'. vgic_eoi_irq d v virq = Inr d') = (virq < 1024)"
    using ok bad by (cases "virq < 1024") auto
  ultimately show ?thesis using inj by blast
qed

text \<open>C10, witness: the numbers 1024 and 1023 on the initialised domain.\<close>

theorem eoi_in_bounds_iff_witness:
  "vgic_eoi_irq dom0 \<lparr>vcpu_id = 0, processor = 0\<rparr> 1024 = Inl Out_of_bounds \<and>
   (\<exists>d'. vgic_eoi_irq dom0 \<lparr>vcpu_id = 0, processor = 0\<rparr> 1023 = Inr d') \<and>
   (\<exists>d'. vgic_inject_irq dom0 1024 = Inr d')"
  using eoi_in_bounds_iff [OF dom0_arch_vgic vgic_zeroed_wf dom0_vcpu, of "\<lparr>vcpu_id = 0, processor = 0\<rparr>" 1024]
    eoi_in_bounds_iff [OF dom0_arch_vgic vgic_zeroed_wf dom0_vcpu, of "\<lparr>vcpu_id = 0, processor = 0\<rparr>" 1023]
  by simp

end
